theory Spec2Isabelle
  imports Main
begin

section \<open>JavaScript values used by the call session\<close>

text \<open>
  The numbers of \<^verbatim>\<open>src/lib/stats/httpRequest.ts\<close> are millisecond timestamps
  and their differences. They are modelled as integers, with \<open>NaN\<close> as a value of its
  own (it is what \<^verbatim>\<open>0 - undefined\<close> gives); fractions and infinities do not occur
  in the operations modelled here.
\<close>

datatype jsnum = Num int | NaN

text \<open>Truthiness of a number: \<^verbatim>\<open>0\<close> and \<^verbatim>\<open>NaN\<close> are falsy.\<close>

fun truthy_num :: "jsnum \<Rightarrow> bool" where
  "truthy_num (Num n) = (n \<noteq> 0)"
| "truthy_num NaN = False"

text \<open>Truthiness of \<^verbatim>\<open>number | null\<close> and of \<^verbatim>\<open>string | undefined\<close>.\<close>

fun truthy_num_opt :: "jsnum option \<Rightarrow> bool" where
  "truthy_num_opt None = False"
| "truthy_num_opt (Some n) = truthy_num n"

fun truthy_str_opt :: "string option \<Rightarrow> bool" where
  "truthy_str_opt None = False"
| "truthy_str_opt (Some s) = (s \<noteq> [])"

text \<open>The binary \<^verbatim>\<open>-\<close> on numbers.\<close>

fun num_sub :: "jsnum \<Rightarrow> jsnum \<Rightarrow> jsnum" where
  "num_sub (Num a) (Num b) = Num (a - b)"
| "num_sub _ _ = NaN"

text \<open>
  A number inside a template literal: decimal digits, a leading minus sign, or
  \<^verbatim>\<open>NaN\<close> (the exponent notation of magnitudes from \<open>10^21\<close> on is not modelled).
\<close>

fun nat_digits :: "nat \<Rightarrow> string" where
  "nat_digits n =
     (if n < 10 then [''0123456789'' ! n]
      else nat_digits (n div 10) @ [''0123456789'' ! (n mod 10)])"

declare nat_digits.simps [simp del]

fun num_to_string :: "jsnum \<Rightarrow> string" where
  "num_to_string (Num i) =
     (if i < 0 then ''-'' @ nat_digits (nat (- i)) else nat_digits (nat i))"
| "num_to_string NaN = ''NaN''"

text \<open>
  An optional property of an object: missing, present and holding \<^verbatim>\<open>undefined\<close>,
  or present and holding a value. Object spread copies a property of the second kind too.
\<close>

datatype 'a field = Absent | Undefined | Present 'a

text \<open>One property of \<^verbatim>\<open>{ ...a, ...b }\<close>: the own property of \<open>b\<close> wins when there is one.\<close>

fun spread_field :: "'a field \<Rightarrow> 'a field \<Rightarrow> 'a field" where
  "spread_field a Absent = a"
| "spread_field a b = b"

text \<open>Reading a numeric property for arithmetic: a missing one reads as \<^verbatim>\<open>undefined\<close>, that is \<open>NaN\<close>.\<close>

fun field_to_number :: "jsnum field \<Rightarrow> jsnum" where
  "field_to_number (Present n) = n"
| "field_to_number _ = NaN"

text \<open>
  \<^verbatim>\<open>String.prototype.search\<close> with a pattern free of regular-expression operators:
  the index of the first occurrence, or \<open>-1\<close>.
\<close>

fun starts_with :: "string \<Rightarrow> string \<Rightarrow> bool" where
  "starts_with [] s = True"
| "starts_with (p # ps) [] = False"
| "starts_with (p # ps) (c # cs) = (p = c \<and> starts_with ps cs)"

fun search_from :: "nat \<Rightarrow> string \<Rightarrow> string \<Rightarrow> int" where
  "search_from i pat [] = (if pat = [] then int i else - 1)"
| "search_from i pat (c # cs) =
     (if starts_with pat (c # cs) then int i else search_from (Suc i) pat cs)"

definition search :: "string \<Rightarrow> string \<Rightarrow> int" where
  "search s pat = search_from 0 pat s"

section \<open>The data of a call session\<close>

record signalling_error =
  timestamp :: jsnum
  error_code :: string
  error_description :: string

record SignallingInfo =
  call_initiation_time :: "jsnum field"
  answer_time :: "jsnum field"
  call_confirmed_time :: "jsnum field"
  post_dial_delay :: "jsnum field"
  hangup_time :: "jsnum field"
  hangup_party :: "string field"
  hangup_reason :: "string field"
  invite_time :: "jsnum field"
  call_progress_time :: "jsnum field"
  signalling_errors :: "signalling_error field"
  ring_start_time :: "jsnum field"

text \<open>The object \<^verbatim>\<open>{}\<close> at type \<open>SignallingInfo\<close>.\<close>

definition empty_info :: SignallingInfo where
  "empty_info =
     \<lparr>call_initiation_time = Absent, answer_time = Absent, call_confirmed_time = Absent,
      post_dial_delay = Absent, hangup_time = Absent, hangup_party = Absent,
      hangup_reason = Absent, invite_time = Absent, call_progress_time = Absent,
      signalling_errors = Absent, ring_start_time = Absent\<rparr>"

text \<open>\<^verbatim>\<open>{ ...a, ...b }\<close> at type \<open>SignallingInfo\<close>.\<close>

definition spread_info :: "SignallingInfo \<Rightarrow> SignallingInfo \<Rightarrow> SignallingInfo" where
  "spread_info a b =
     \<lparr>call_initiation_time = spread_field (call_initiation_time a) (call_initiation_time b),
      answer_time = spread_field (answer_time a) (answer_time b),
      call_confirmed_time = spread_field (call_confirmed_time a) (call_confirmed_time b),
      post_dial_delay = spread_field (post_dial_delay a) (post_dial_delay b),
      hangup_time = spread_field (hangup_time a) (hangup_time b),
      hangup_party = spread_field (hangup_party a) (hangup_party b),
      hangup_reason = spread_field (hangup_reason a) (hangup_reason b),
      invite_time = spread_field (invite_time a) (invite_time b),
      call_progress_time = spread_field (call_progress_time a) (call_progress_time b),
      signalling_errors = spread_field (signalling_errors a) (signalling_errors b),
      ring_start_time = spread_field (ring_start_time a) (ring_start_time b)\<rparr>"

text \<open>\<^verbatim>\<open>MediaConnectionInformation\<close>: an object indexed by any string, holding numbers.\<close>

type_synonym MediaConnectionInformation = "string \<rightharpoonup> jsnum"

text \<open>
  What the session reads of its collaborators: the peer connection's gathering state and the
  flag \<open>_onConfirmed\<close> sets on it, and the two interval handles of the RTP statistics object.
\<close>

record RTCPeerConnection =
  iceGatheringState :: string
  disableRtpTimeOut :: bool

record RTCSession =
  connection :: "RTCPeerConnection option"

record GetRTPStats =
  statsTimer :: nat
  audioTimer :: nat

type_synonym ExtraHeaders = "(string \<times> string) list"

record CallSessionOptions =
  opt_callUUID :: "string option"
  opt_sipCallID :: "string option"
  opt_direction :: string
  opt_src :: string
  opt_dest :: string
  opt_session :: "RTCSession option"
  opt_extraHeaders :: ExtraHeaders
  opt_call_initiation_time :: "jsnum option"

record CallInfo =
  ci_callUUID :: "string option"
  ci_direction :: string
  ci_src :: string
  ci_dest :: string
  ci_state :: string
  ci_extraHeaders :: ExtraHeaders

record CallSession =
  callUUID :: "string option"
  sipCallID :: "string option"
  direction :: string
  src :: string
  dest :: string
  state :: string
  extraHeaders :: ExtraHeaders
  session :: "RTCSession option"
  connectionStages :: "string list"
  gotInitalIce :: bool
  stats :: "GetRTPStats option"
  signallingInfo :: SignallingInfo
  mediaConnectionInfo :: MediaConnectionInformation
  postDialDelayEndTime :: "jsnum option"

text \<open>The table \<^verbatim>\<open>this.STATE\<close> of the constructor.\<close>

definition STATE_INITIALIZED :: string where "STATE_INITIALIZED = ''initialized''"
definition STATE_RINGING :: string where "STATE_RINGING = ''ringing''"
definition STATE_ANSWERED :: string where "STATE_ANSWERED = ''answered''"
definition STATE_REJECTED :: string where "STATE_REJECTED = ''rejected''"
definition STATE_IGNORED :: string where "STATE_IGNORED = ''ignored''"
definition STATE_CANCELED :: string where "STATE_CANCELED = ''canceled''"
definition STATE_FAILED :: string where "STATE_FAILED = ''failed''"
definition STATE_ENDED :: string where "STATE_ENDED = ''ended''"

text \<open>The terminal states named by the specification.\<close>

definition terminal :: "string \<Rightarrow> bool" where
  "terminal st \<longleftrightarrow>
     st \<in> {STATE_REJECTED, STATE_IGNORED, STATE_CANCELED, STATE_FAILED, STATE_ENDED}"

text \<open>The constructor.\<close>

definition new_CallSession :: "CallSessionOptions \<Rightarrow> CallSession" where
  "new_CallSession options =
     \<lparr>callUUID = (if truthy_str_opt (opt_callUUID options) then opt_callUUID options else None),
      sipCallID = opt_sipCallID options,
      direction = opt_direction options,
      src = opt_src options,
      dest = opt_dest options,
      state = STATE_INITIALIZED,
      extraHeaders = opt_extraHeaders options,
      session = opt_session options,
      connectionStages = [],
      gotInitalIce = False,
      stats = None,
      signallingInfo =
        (case opt_call_initiation_time options of
           None \<Rightarrow> empty_info
         | Some t \<Rightarrow>
             if truthy_num t then empty_info\<lparr>call_initiation_time := Present t\<rparr>
             else empty_info),
      mediaConnectionInfo = Map.empty,
      postDialDelayEndTime = None\<rparr>"

section \<open>Setters and getters\<close>

definition setCallUUID :: "string option \<Rightarrow> CallSession \<Rightarrow> CallSession" where
  "setCallUUID u s = s\<lparr>callUUID := u\<rparr>"

definition setState :: "string \<Rightarrow> CallSession \<Rightarrow> CallSession" where
  "setState st s = s\<lparr>state := st\<rparr>"

definition addConnectionStage :: "string \<Rightarrow> CallSession \<Rightarrow> CallSession" where
  "addConnectionStage stage s = s\<lparr>connectionStages := connectionStages s @ [stage]\<rparr>"

definition getConnectionStages :: "CallSession \<Rightarrow> string list" where
  "getConnectionStages s = connectionStages s"

definition setCallStats :: "GetRTPStats \<Rightarrow> CallSession \<Rightarrow> CallSession" where
  "setCallStats st s = s\<lparr>stats := Some st\<rparr>"

definition updateSignallingInfo :: "SignallingInfo \<Rightarrow> CallSession \<Rightarrow> CallSession" where
  "updateSignallingInfo object s = s\<lparr>signallingInfo := spread_info (signallingInfo s) object\<rparr>"

definition updateMediaConnectionInfo ::
    "MediaConnectionInformation \<Rightarrow> CallSession \<Rightarrow> CallSession" where
  "updateMediaConnectionInfo object s = s\<lparr>mediaConnectionInfo := mediaConnectionInfo s ++ object\<rparr>"

text \<open>
  \<^verbatim>\<open>post_dial_delay: this.postDialDelayEndTime ? this.postDialDelayEndTime
     : 0 - (this.signallingInfo as any).call_initiation_time\<close>:
  the conditional operator binds weaker than \<^verbatim>\<open>-\<close>, so the subtraction belongs to the
  third operand only.
\<close>

definition getSignallingInfo :: "CallSession \<Rightarrow> SignallingInfo" where
  "getSignallingInfo s =
     (let otherwise = num_sub (Num 0) (field_to_number (call_initiation_time (signallingInfo s)))
      in spread_info (signallingInfo s)
           (empty_info\<lparr>post_dial_delay :=
              Present (case postDialDelayEndTime s of
                         None \<Rightarrow> otherwise
                       | Some t \<Rightarrow> if truthy_num t then t else otherwise)\<rparr>))"

definition getMediaConnectionInfo :: "CallSession \<Rightarrow> MediaConnectionInformation" where
  "getMediaConnectionInfo s = mediaConnectionInfo s"

definition setPostDialDelayEndTime :: "jsnum \<Rightarrow> CallSession \<Rightarrow> CallSession" where
  "setPostDialDelayEndTime time s =
     (if \<not> truthy_num_opt (postDialDelayEndTime s) then s\<lparr>postDialDelayEndTime := Some time\<rparr>
      else s)"

definition getCallInfo :: "CallSession \<Rightarrow> CallInfo" where
  "getCallInfo s =
     \<lparr>ci_callUUID = callUUID s, ci_direction = direction s, ci_src = src s, ci_dest = dest s,
      ci_state = state s, ci_extraHeaders = extraHeaders s\<rparr>"

section \<open>Collaborators, effects and the world around a session\<close>

text \<open>
  The handlers call collaborators that live in other modules (the statistics engine, the
  device layer, the notification sink, the logger, timers). Such a call is recorded, in
  order, in a trace; what a collaborator does with the objects handed to it is not code of
  this file, and a collaborator is taken to return normally. Exceptions raised by an
  expression of this file itself (reading a property of a \<^verbatim>\<open>null\<close> session) are modelled.
\<close>

record constants =
  ICE_GATHERING_TIMEOUT :: int
  RINGTONE_ELEMENT_ID :: string
  RINGBACK_ELEMENT_ID :: string

record HTMLAudioElement =
  paused :: bool

text \<open>\<^verbatim>\<open>clientObject._currentSession\<close> is the session handling the event or another one.\<close>

datatype session_ref = This | Other CallSession

record Client =
  options_disableRtpTimeOut :: bool
  ringToneView :: "HTMLAudioElement option"
  ringBackToneView :: "HTMLAudioElement option"
  has_callStats :: bool
  userName :: "string option"
  currentSession :: "session_ref option"

text \<open>
  \<open>candidate\<close> is the string \<^verbatim>\<open>event.candidate.candidate\<close>, and \<open>None\<close> when
  \<^verbatim>\<open>event.candidate\<close> is \<^verbatim>\<open>null\<close>.
\<close>

record SessionIceCandidateEvent =
  candidate :: "string option"

record SessionTerminationEvent =
  originator :: string
  cause :: string

type_synonym SessionFailedEvent = SessionTerminationEvent
type_synonym SessionEndedEvent = SessionTerminationEvent

text \<open>The object the device layer answers with is opaque to the session.\<close>

datatype DeviceAudioInfo = DeviceAudioInfo nat

datatype js_error = JsError (message: string)

text \<open>The two functions handed to \<^verbatim>\<open>setTimeout\<close>, with what they capture.\<close>

datatype closure =
    IceGatheringWatchdog Client SessionIceCandidateEvent
  | OwaNotificationBind Client

text \<open>
  Log lines. \<open>IceGatheringTakingMoreThan t st\<close> is
  \<^verbatim>\<open>`ice gathering taking more than ${C.ICE_GATHERING_TIMEOUT / 1000} sec ${st}`\<close> with
  \<open>t\<close> the constant; \<open>GetUserMediaFailed e\<close> is \<^verbatim>\<open>`getusermediafailed: ${err}`\<close>.
\<close>

datatype log_message =
    Msg string
  | IceGatheringTakingMoreThan int string
  | GetUserMediaFailed js_error

datatype reporter = WebRTC_getUserMedia | CallStatsCb

datatype effect =
    EventReady SessionIceCandidateEvent
  | SetTimeout closure int
  | ClearInterval nat
  | StatsStop
  | LogDebug log_message
  | LogError log_message
  | EmitMetrics string string string jsnum bool string string
  | AddCloseProtectionListeners
  | GetAudioDevicesInfo
  | SendCallAnsweredEvent "DeviceAudioInfo option" bool
  | CallStart
  | StartVolumeDataStreaming
  | StopVolumeDataStreaming
  | SetEncodingParameters
  | StatsCollector
  | StopAudio string
  | EmitOnCallAnswered CallInfo
  | EmitOnCallTerminated string string CallInfo
  | SendFabricEvent "string option"
  | HangupClearance session_ref
  | HandleMediaError SessionFailedEvent
  | OnIceFailure js_error
  | OnMediaFailure js_error
  | OnSDPfailure js_error
  | ReportError string reporter js_error

text \<open>
  The world: the session (\<^verbatim>\<open>this\<close>), the calls made so far, the timers that are
  scheduled and have not fired, and the number of device-information queries that carry the
  handlers of \<open>_onAccepted\<close> and have not settled.
\<close>

record world =
  self :: CallSession
  trace :: "effect list"
  timers :: "(closure \<times> int) list"
  pendingDeviceInfo :: nat

definition new_world :: "CallSessionOptions \<Rightarrow> world" where
  "new_world options =
     \<lparr>self = new_CallSession options, trace = [], timers = [], pendingDeviceInfo = 0\<rparr>"

definition call_out :: "effect \<Rightarrow> world \<Rightarrow> world" where
  "call_out e w = w\<lparr>trace := trace w @ [e]\<rparr>"

definition setTimeout :: "closure \<Rightarrow> int \<Rightarrow> world \<Rightarrow> world" where
  "setTimeout cb delay w =
     w\<lparr>trace := trace w @ [SetTimeout cb delay], timers := timers w @ [(cb, delay)]\<rparr>"

definition on_self :: "(CallSession \<Rightarrow> CallSession) \<Rightarrow> world \<Rightarrow> world" where
  "on_self f w = w\<lparr>self := f (self w)\<rparr>"

text \<open>A handler returns, or throws with the world as it is at the throw.\<close>

datatype outcome = Returned world | Threw string world

fun final :: "outcome \<Rightarrow> world" where
  "final (Returned w) = w"
| "final (Threw e w) = w"

section \<open>Handlers\<close>

definition clearCallStats :: "world \<Rightarrow> world" where
  "clearCallStats w =
     (case stats (self w) of
        None \<Rightarrow> w
      | Some st \<Rightarrow>
          on_self (\<lambda>s. s\<lparr>stats := None\<rparr>)
            (call_out StatsStop
              (call_out (ClearInterval (audioTimer st))
                (call_out (ClearInterval (statsTimer st)) w))))"

text \<open>
  \<open>_onAccepted\<close>; \<open>now\<close> is what \<^verbatim>\<open>getCurrentTime()\<close> returns. The handlers given to
  \<^verbatim>\<open>then\<close> and \<^verbatim>\<open>catch\<close> run when the query settles: \<open>deviceInfo_settles\<close>.
\<close>

definition onAccepted :: "Client \<Rightarrow> jsnum \<Rightarrow> world \<Rightarrow> world" where
  "onAccepted clientObject now w =
     (let w1 = call_out AddCloseProtectionListeners w;
          w2 = (call_out GetAudioDevicesInfo w1)\<lparr>pendingDeviceInfo := Suc (pendingDeviceInfo w1)\<rparr>;
          w3 = on_self (updateSignallingInfo (empty_info\<lparr>answer_time := Present now\<rparr>)) w2;
          w4 = call_out CallStart w3
      in call_out StartVolumeDataStreaming w4)"

datatype 'a settled = Fulfilled 'a | Rejected

definition deviceInfo_settles :: "DeviceAudioInfo settled \<Rightarrow> world \<Rightarrow> world" where
  "deviceInfo_settles result w =
     (case pendingDeviceInfo w of
        0 \<Rightarrow> w
      | Suc n \<Rightarrow>
          (case result of
             Fulfilled deviceInfo \<Rightarrow>
               call_out (SendCallAnsweredEvent (Some deviceInfo) True) (w\<lparr>pendingDeviceInfo := n\<rparr>)
           | Rejected \<Rightarrow>
               call_out (SendCallAnsweredEvent None True) (w\<lparr>pendingDeviceInfo := n\<rparr>)))"

text \<open>\<open>_onConfirmed\<close>; \<open>t1\<close> and \<open>t2\<close> are the two readings of \<^verbatim>\<open>getCurrentTime()\<close>.\<close>

definition onConfirmed_finish :: "Client \<Rightarrow> constants \<Rightarrow> world \<Rightarrow> outcome" where
  "onConfirmed_finish clientObject C w =
     (let w1 = call_out StatsCollector w;
          w2 = (case ringToneView clientObject of
                  None \<Rightarrow> w1
                | Some v \<Rightarrow> if \<not> paused v then call_out (StopAudio (RINGTONE_ELEMENT_ID C)) w1 else w1);
          w3 = (case ringBackToneView clientObject of
                  None \<Rightarrow> w2
                | Some v \<Rightarrow> if \<not> paused v then call_out (StopAudio (RINGBACK_ELEMENT_ID C)) w2 else w2);
          w4 = call_out (EmitOnCallAnswered (getCallInfo (self w3))) w3;
          w5 = call_out (LogDebug (Msg ''Post-Answer detecting OWA'')) w4
      in case session (self w5) of
           None \<Rightarrow> Threw ''TypeError'' w5
         | Some rs \<Rightarrow> Returned (setTimeout (OwaNotificationBind clientObject) 3000 w5))"

definition onConfirmed :: "constants \<Rightarrow> Client \<Rightarrow> jsnum \<Rightarrow> jsnum \<Rightarrow> world \<Rightarrow> outcome" where
  "onConfirmed C clientObject t1 t2 w =
     (let w1 = on_self (addConnectionStage (''confirmed@'' @ num_to_string t1)) w;
          w2 = on_self (setState STATE_ANSWERED) w1;
          w3 = on_self (updateSignallingInfo (empty_info\<lparr>call_confirmed_time := Present t2\<rparr>)) w2;
          w4 = call_out SetEncodingParameters w3
      in if options_disableRtpTimeOut clientObject then
           (case session (self w4) of
              None \<Rightarrow> Threw ''TypeError'' w4
            | Some rs \<Rightarrow>
                (case connection rs of
                   None \<Rightarrow> Threw ''TypeError'' w4
                 | Some pc \<Rightarrow>
                     onConfirmed_finish clientObject C
                       (on_self (\<lambda>s. s\<lparr>session :=
                          Some (rs\<lparr>connection := Some (pc\<lparr>disableRtpTimeOut := True\<rparr>)\<rparr>)\<rparr>) w4)))
         else onConfirmed_finish clientObject C w4)"

text \<open>The test \<^verbatim>\<open>candidate && candidate.candidate.search('srflx') !== -1\<close>.\<close>

definition is_srflx :: "SessionIceCandidateEvent \<Rightarrow> bool" where
  "is_srflx event =
     (case candidate event of None \<Rightarrow> False | Some c \<Rightarrow> search c ''srflx'' \<noteq> - 1)"

definition onIceCandidate ::
    "constants \<Rightarrow> Client \<Rightarrow> SessionIceCandidateEvent \<Rightarrow> world \<Rightarrow> world" where
  "onIceCandidate C clientObject event w =
     (if is_srflx event then call_out (EventReady event) w
      else if gotInitalIce (self w) then w
      else setTimeout (IceGatheringWatchdog clientObject event) (ICE_GATHERING_TIMEOUT C)
             (on_self (\<lambda>s. s\<lparr>gotInitalIce := True\<rparr>) w))"

text \<open>What a timer does when it fires.\<close>

fun run_closure :: "constants \<Rightarrow> closure \<Rightarrow> world \<Rightarrow> world" where
  "run_closure C (IceGatheringWatchdog clientObject event) w =
     (case session (self w) of
        None \<Rightarrow> w
      | Some rs \<Rightarrow>
          (case connection rs of
             None \<Rightarrow> w
           | Some pc \<Rightarrow>
               if iceGatheringState pc \<noteq> ''complete'' then
                 call_out (EmitMetrics ''network'' ''warning'' ''ice_timeout''
                             (Num (ICE_GATHERING_TIMEOUT C)) True
                             ''Possible NAT/Firewall issue'' ''None'')
                   (call_out (LogDebug (IceGatheringTakingMoreThan (ICE_GATHERING_TIMEOUT C)
                                          (iceGatheringState pc)))
                     (call_out (EventReady event) w))
               else w))"
| "run_closure C (OwaNotificationBind clientObject) w = w"

text \<open>The timer at position \<open>i\<close> of the scheduled ones fires, once, and is gone.\<close>

definition timer_fires :: "constants \<Rightarrow> nat \<Rightarrow> world \<Rightarrow> world" where
  "timer_fires C i w =
     (if i < length (timers w) then
        run_closure C (fst (timers w ! i))
          (w\<lparr>timers := take i (timers w) @ drop (Suc i) (timers w)\<rparr>)
      else w)"

definition onIceTimeout :: "Client \<Rightarrow> jsnum \<Rightarrow> world \<Rightarrow> world" where
  "onIceTimeout clientObject sec w =
     call_out (OnIceFailure (JsError ''ice_timeout''))
       (call_out (EmitMetrics ''network'' ''warning'' ''ice_timeout'' sec True
                    ''Possible NAT/Firewall issue'' ''None'')
         (call_out (LogDebug (Msg ''ice gathering timed out'')) w))"

definition onFailed :: "Client \<Rightarrow> SessionFailedEvent \<Rightarrow> jsnum \<Rightarrow> jsnum \<Rightarrow> world \<Rightarrow> world" where
  "onFailed clientObject evt t1 t2 w =
     (let w1 = on_self (addConnectionStage (''failed@'' @ num_to_string t1)) w;
          w2 = on_self (updateSignallingInfo
                 (empty_info\<lparr>hangup_time := Present t2, hangup_party := Present (originator evt),
                    hangup_reason := Present (cause evt)\<rparr>)) w1;
          w3 = call_out (HandleMediaError evt) w2;
          w4 = call_out (HangupClearance This) w3
      in call_out StopVolumeDataStreaming w4)"

definition deref :: "world \<Rightarrow> session_ref \<Rightarrow> CallSession" where
  "deref w r = (case r of This \<Rightarrow> self w | Other s \<Rightarrow> s)"

definition onEnded :: "Client \<Rightarrow> SessionEndedEvent \<Rightarrow> jsnum \<Rightarrow> jsnum \<Rightarrow> world \<Rightarrow> outcome" where
  "onEnded clientObject evt t1 t2 w =
     (let w1 = on_self (addConnectionStage (''ended@'' @ num_to_string t1)) w;
          w2 = on_self (setState STATE_ENDED) w1;
          w3 = on_self (updateSignallingInfo
                 (empty_info\<lparr>hangup_time := Present t2, hangup_party := Present (originator evt),
                    hangup_reason := Present (cause evt)\<rparr>)) w2;
          finish = (\<lambda>w4.
            case currentSession clientObject of
              None \<Rightarrow> w4
            | Some r \<Rightarrow>
                call_out StopVolumeDataStreaming
                  (call_out (HangupClearance r)
                    (call_out (EmitOnCallTerminated (originator evt) (cause evt)
                                 (getCallInfo (deref w4 r))) w4)))
      in if has_callStats clientObject then
           (case session (self w3) of
              None \<Rightarrow> Threw ''TypeError'' w3
            | Some rs \<Rightarrow> Returned (finish (call_out (SendFabricEvent (callUUID (self w3))) w3)))
         else Returned (finish w3))"

definition onGetUserMediaFailed :: "Client \<Rightarrow> js_error \<Rightarrow> world \<Rightarrow> world" where
  "onGetUserMediaFailed clientObject err w =
     (let w1 = call_out (LogError (GetUserMediaFailed err)) w
      in case userName clientObject of
           Some u \<Rightarrow>
             if u \<noteq> [] \<and> has_callStats clientObject then
               call_out (OnMediaFailure (JsError ''getusermediafailed''))
                 (call_out (ReportError u WebRTC_getUserMedia (JsError ''getusermediafailed'')) w1)
             else call_out (OnMediaFailure err) w1
         | None \<Rightarrow> call_out (OnMediaFailure err) w1)"

text \<open>
  \<open>_handlePeerConnectionFailures\<close>; \<open>msg\<close> is the text \<^verbatim>\<open>${msg}\<close> renders and
  \<open>callStatscb\<close> tells whether a callback was passed.
\<close>

definition handlePeerConnectionFailures ::
    "Client \<Rightarrow> string \<Rightarrow> bool \<Rightarrow> js_error \<Rightarrow> world \<Rightarrow> world" where
  "handlePeerConnectionFailures clientObject msg callStatscb err w =
     (case userName clientObject of
        Some u \<Rightarrow>
          if u \<noteq> [] \<and> has_callStats clientObject \<and> callStatscb then
            call_out (OnSDPfailure (JsError (''peerconnection:'' @ msg)))
              (call_out (ReportError u CallStatsCb (JsError (''peerconnection:'' @ msg))) w)
          else call_out (OnSDPfailure err) w
      | None \<Rightarrow> call_out (OnSDPfailure err) w)"

section \<open>The operations of a session, one at a time\<close>

text \<open>
  Every public operation that can change the world, and the two callbacks the handlers
  leave behind (a timer firing, the device query settling). The getters change nothing.
\<close>

datatype op =
    SetCallUUID "string option"
  | SetState string
  | AddConnectionStage string
  | SetCallStats GetRTPStats
  | ClearCallStats
  | UpdateSignallingInfo SignallingInfo
  | UpdateMediaConnectionInfo MediaConnectionInformation
  | SetPostDialDelayEndTime jsnum
  | OnAccepted Client jsnum
  | OnConfirmed Client jsnum jsnum
  | OnIceCandidate Client SessionIceCandidateEvent
  | OnIceTimeout Client jsnum
  | OnFailed Client SessionFailedEvent jsnum jsnum
  | OnEnded Client SessionEndedEvent jsnum jsnum
  | OnGetUserMediaFailed Client js_error
  | HandlePeerConnectionFailures Client string bool js_error
  | TimerFires nat
  | DeviceInfoSettles "DeviceAudioInfo settled"

fun exec :: "constants \<Rightarrow> op \<Rightarrow> world \<Rightarrow> world" where
  "exec C (SetCallUUID u) w = on_self (setCallUUID u) w"
| "exec C (SetState st) w = on_self (setState st) w"
| "exec C (AddConnectionStage stage) w = on_self (addConnectionStage stage) w"
| "exec C (SetCallStats st) w = on_self (setCallStats st) w"
| "exec C ClearCallStats w = clearCallStats w"
| "exec C (UpdateSignallingInfo object) w = on_self (updateSignallingInfo object) w"
| "exec C (UpdateMediaConnectionInfo object) w = on_self (updateMediaConnectionInfo object) w"
| "exec C (SetPostDialDelayEndTime time) w = on_self (setPostDialDelayEndTime time) w"
| "exec C (OnAccepted cs now) w = onAccepted cs now w"
| "exec C (OnConfirmed cs t1 t2) w = final (onConfirmed C cs t1 t2 w)"
| "exec C (OnIceCandidate cs event) w = onIceCandidate C cs event w"
| "exec C (OnIceTimeout cs sec) w = onIceTimeout cs sec w"
| "exec C (OnFailed cs event t1 t2) w = onFailed cs event t1 t2 w"
| "exec C (OnEnded cs event t1 t2) w = final (onEnded cs event t1 t2 w)"
| "exec C (OnGetUserMediaFailed cs error) w = onGetUserMediaFailed cs error w"
| "exec C (HandlePeerConnectionFailures cs msg callStatscb err) w =
     handlePeerConnectionFailures cs msg callStatscb err w"
| "exec C (TimerFires i) w = timer_fires C i w"
| "exec C (DeviceInfoSettles result) w = deviceInfo_settles result w"

fun exec_all :: "constants \<Rightarrow> op list \<Rightarrow> world \<Rightarrow> world" where
  "exec_all C [] w = w"
| "exec_all C (x # xs) w = exec_all C xs (exec C x w)"

text \<open>Counting in a trace and among the scheduled timers.\<close>

fun is_watchdog :: "closure \<Rightarrow> bool" where
  "is_watchdog (IceGatheringWatchdog cs event) = True"
| "is_watchdog (OwaNotificationBind cs) = False"

fun schedules_watchdog :: "effect \<Rightarrow> bool" where
  "schedules_watchdog (SetTimeout cb delay) = is_watchdog cb"
| "schedules_watchdog _ = False"

fun is_ice_timeout_metric :: "effect \<Rightarrow> bool" where
  "is_ice_timeout_metric (EmitMetrics g l name v a d s) = (name = ''ice_timeout'')"
| "is_ice_timeout_metric _ = False"

fun is_ready :: "effect \<Rightarrow> bool" where
  "is_ready (EventReady event) = True"
| "is_ready _ = False"

definition watchdogs_scheduled :: "effect list \<Rightarrow> nat" where
  "watchdogs_scheduled tr = length (filter schedules_watchdog tr)"

definition ice_timeout_metrics :: "effect list \<Rightarrow> nat" where
  "ice_timeout_metrics tr = length (filter is_ice_timeout_metric tr)"

definition ready_signals :: "effect list \<Rightarrow> nat" where
  "ready_signals tr = length (filter is_ready tr)"

definition watchdogs_pending :: "(closure \<times> int) list \<Rightarrow> nat" where
  "watchdogs_pending ts = length (filter (\<lambda>t. is_watchdog (fst t)) ts)"

section \<open>\<open>fetchIPAddress\<close>\<close>

text \<open>
  The promise of \<open>fetchIPAddress\<close>. Its executor receives \<^verbatim>\<open>resolve\<close> only, registers
  the handlers of \<^verbatim>\<open>succeeded\<close> and \<^verbatim>\<open>failed\<close> and sends the message; the events
  the message then emits are the input. Resolving a settled promise changes nothing.
\<close>

record IncomingResponse =
  body :: "string option"

record MessageSucceeded =
  response :: "IncomingResponse option"

datatype message_event = Succeeded MessageSucceeded | Failed

datatype ip_answer = IpString string | IpError js_error

datatype 'a promise = Pending | FulfilledWith 'a | RejectedWith js_error

definition resolve :: "'a \<Rightarrow> 'a promise \<Rightarrow> 'a promise" where
  "resolve v p = (case p of Pending \<Rightarrow> FulfilledWith v | _ \<Rightarrow> p)"

definition no_ip :: js_error where
  "no_ip = JsError (''couldn'' @ [CHR 0x27] @ ''t retrieve ipaddress'')"

fun message_emits :: "message_event \<Rightarrow> ip_answer promise \<Rightarrow> ip_answer promise" where
  "message_emits (Succeeded data) p =
     (case response data of
        None \<Rightarrow> resolve (IpError no_ip) p
      | Some r \<Rightarrow>
          (case body r of
             None \<Rightarrow> resolve (IpError no_ip) p
           | Some b \<Rightarrow> if b \<noteq> [] then resolve (IpString b) p else resolve (IpError no_ip) p))"
| "message_emits Failed p = resolve (IpError no_ip) p"

fun settle_with :: "message_event list \<Rightarrow> ip_answer promise \<Rightarrow> ip_answer promise" where
  "settle_with [] p = p"
| "settle_with (e # es) p = settle_with es (message_emits e p)"

definition fetchIPAddress :: "message_event list \<Rightarrow> ip_answer promise" where
  "fetchIPAddress events = settle_with events Pending"

section \<open>Reading a signalling record by key\<close>

text \<open>
  \<^verbatim>\<open>info[key]\<close> for the keys of the interface, with the three kinds of values the
  interface has, so that a statement can speak of any key.
\<close>

datatype info_key =
    K_call_initiation_time | K_answer_time | K_call_confirmed_time | K_post_dial_delay
  | K_hangup_time | K_hangup_party | K_hangup_reason | K_invite_time | K_call_progress_time
  | K_signalling_errors | K_ring_start_time

datatype info_value = NumberValue jsnum | StringValue string | ErrorsValue signalling_error

fun lookup :: "SignallingInfo \<Rightarrow> info_key \<Rightarrow> info_value field" where
  "lookup i K_call_initiation_time = map_field NumberValue (call_initiation_time i)"
| "lookup i K_answer_time = map_field NumberValue (answer_time i)"
| "lookup i K_call_confirmed_time = map_field NumberValue (call_confirmed_time i)"
| "lookup i K_post_dial_delay = map_field NumberValue (post_dial_delay i)"
| "lookup i K_hangup_time = map_field NumberValue (hangup_time i)"
| "lookup i K_hangup_party = map_field StringValue (hangup_party i)"
| "lookup i K_hangup_reason = map_field StringValue (hangup_reason i)"
| "lookup i K_invite_time = map_field NumberValue (invite_time i)"
| "lookup i K_call_progress_time = map_field NumberValue (call_progress_time i)"
| "lookup i K_signalling_errors = map_field ErrorsValue (signalling_errors i)"
| "lookup i K_ring_start_time = map_field NumberValue (ring_start_time i)"

section \<open>Concrete inputs\<close>

text \<open>
  An outgoing call placed at time 1000 whose peer connection is still gathering
  candidates, a client without a statistics engine, and the module constants.
\<close>

definition example_options :: CallSessionOptions where
  "example_options =
     \<lparr>opt_callUUID = None, opt_sipCallID = Some ''sip-call-1'', opt_direction = ''outgoing'',
      opt_src = ''alice'', opt_dest = ''bob'',
      opt_session =
        Some \<lparr>connection = Some \<lparr>iceGatheringState = ''gathering'', disableRtpTimeOut = False\<rparr>\<rparr>,
      opt_extraHeaders = [], opt_call_initiation_time = Some (Num 1000)\<rparr>"

definition example_constants :: constants where
  "example_constants =
     \<lparr>ICE_GATHERING_TIMEOUT = 2000, RINGTONE_ELEMENT_ID = ''plivo_ringtone'',
      RINGBACK_ELEMENT_ID = ''plivo_ringbacktone''\<rparr>"

definition example_client :: Client where
  "example_client =
     \<lparr>options_disableRtpTimeOut = False, ringToneView = None, ringBackToneView = None,
      has_callStats = False, userName = Some ''alice'', currentSession = None\<rparr>"

text \<open>Three candidates as a browser reports them: relayed, server-reflexive and host.\<close>

definition relay_candidate :: SessionIceCandidateEvent where
  "relay_candidate =
     \<lparr>candidate = Some ''candidate:3 1 udp 41885439 192.0.2.10 50000 typ relay raddr 198.51.100.7 rport 40000''\<rparr>"

definition srflx_candidate :: SessionIceCandidateEvent where
  "srflx_candidate =
     \<lparr>candidate = Some ''candidate:2 1 udp 1686052607 203.0.113.9 61000 typ srflx raddr 10.0.0.5 rport 61000''\<rparr>"

definition host_candidate :: SessionIceCandidateEvent where
  "host_candidate = \<lparr>candidate = Some ''candidate:1 1 udp 2122260223 10.0.0.5 61000 typ host''\<rparr>"

section \<open>Classes of operations and invariants of the watchdog\<close>

text \<open>The operations whose own code assigns \<open>state\<close>.\<close>

fun assigns_state :: "op \<Rightarrow> bool" where
  "assigns_state (SetState st) = True"
| "assigns_state (OnConfirmed cs t1 t2) = True"
| "assigns_state (OnEnded cs event t1 t2) = True"
| "assigns_state _ = False"

text \<open>A candidate arriving, or a scheduled timer firing.\<close>

fun ice_step :: "op \<Rightarrow> bool" where
  "ice_step (OnIceCandidate cs event) = True"
| "ice_step (TimerFires i) = True"
| "ice_step _ = False"

text \<open>
  While the flag is down no watchdog has been scheduled, and never more than one is; every
  watchdog that is scheduled is still waiting or has emitted at most one metric.
\<close>

definition armed_once :: "world \<Rightarrow> bool" where
  "armed_once w \<longleftrightarrow>
     (gotInitalIce (self w) \<or> watchdogs_scheduled (trace w) = 0)
     \<and> watchdogs_scheduled (trace w) \<le> 1"

definition fires_once :: "world \<Rightarrow> bool" where
  "fires_once w \<longleftrightarrow>
     watchdogs_pending (timers w) + ice_timeout_metrics (trace w) \<le> watchdogs_scheduled (trace w)"

section \<open>The signalling record\<close>

lemma post_dial_delay_getSignallingInfo:
  "post_dial_delay (getSignallingInfo s) =
     Present (case postDialDelayEndTime s of
                None \<Rightarrow> num_sub (Num 0) (field_to_number (call_initiation_time (signallingInfo s)))
              | Some t \<Rightarrow>
                  if truthy_num t then t
                  else num_sub (Num 0) (field_to_number (call_initiation_time (signallingInfo s))))"
  by (simp add: getSignallingInfo_def spread_info_def empty_info_def Let_def)

text \<open>
  Claim C1 says that \<open>getSignallingInfo\<close> returns \<open>post_dial_delay\<close> equal to
  \<open>postDialDelayEndTime\<close> (or 0 when unset) minus \<open>call_initiation_time\<close>. The code
  subtracts in the else-branch only: for a call initiated at 1000 whose ringing response was
  recorded at 1500, the snapshot holds 1500 and not the difference 500.
\<close>

theorem getSignallingInfo_post_dial_delay_not_subtracted:
  "(let s = setPostDialDelayEndTime (Num 1500) (new_CallSession example_options)
    in call_initiation_time (getSignallingInfo s) = Present (Num 1000)
       \<and> postDialDelayEndTime s = Some (Num 1500)
       \<and> post_dial_delay (getSignallingInfo s) = Present (Num 1500)
       \<and> post_dial_delay (getSignallingInfo s) \<noteq> Present (num_sub (Num 1500) (Num 1000)))"
  by (simp add: getSignallingInfo_def spread_info_def empty_info_def Let_def
      setPostDialDelayEndTime_def new_CallSession_def example_options_def)

lemma map_field_spread:
  "map_field f (spread_field a b) = spread_field (map_field f a) (map_field f b)"
  by (cases b) simp_all

lemma lookup_spread_info:
  "lookup (spread_info a b) k = spread_field (lookup a k) (lookup b k)"
  by (cases k) (simp_all add: spread_info_def map_field_spread)

lemma spread_field_present: "b \<noteq> Absent \<Longrightarrow> spread_field a b = b"
  by (cases b) simp_all

text \<open>
  Claim C8: \<open>updateSignallingInfo\<close> merges. A key the argument does not have keeps what the
  record held; a key the argument has takes the argument's entry; so after
  \<open>updateSignallingInfo p\<close> with \<open>a: va\<close> and \<open>updateSignallingInfo q\<close> with \<open>b: vb\<close> (and
  no \<open>a\<close>) the record holds both \<open>a: va\<close> and \<open>b: vb\<close>. Nothing else of the session changes.
\<close>

theorem updateSignallingInfo_shallow_merge:
  "(lookup object k = Absent \<longrightarrow>
      lookup (signallingInfo (updateSignallingInfo object s)) k = lookup (signallingInfo s) k)
   \<and> (lookup object k \<noteq> Absent \<longrightarrow>
      lookup (signallingInfo (updateSignallingInfo object s)) k = lookup object k)
   \<and> (lookup p a = Present va \<and> lookup q b = Present vb \<and> lookup q a = Absent \<longrightarrow>
      lookup (signallingInfo (updateSignallingInfo q (updateSignallingInfo p s))) a = Present va
      \<and> lookup (signallingInfo (updateSignallingInfo q (updateSignallingInfo p s))) b = Present vb)
   \<and> (updateSignallingInfo object s)\<lparr>signallingInfo := signallingInfo s\<rparr> = s"
  by (simp add: updateSignallingInfo_def lookup_spread_info spread_field_present)

theorem updateSignallingInfo_shallow_merge_witness:
  "lookup (empty_info\<lparr>call_confirmed_time := Present (Num 2)\<rparr>) K_call_initiation_time = Absent
   \<and> lookup (empty_info\<lparr>call_confirmed_time := Present (Num 2)\<rparr>) K_answer_time = Absent
   \<and> lookup (empty_info\<lparr>call_confirmed_time := Present (Num 2)\<rparr>) K_call_confirmed_time \<noteq> Absent
   \<and> lookup (empty_info\<lparr>answer_time := Present (Num 1)\<rparr>) K_answer_time = Present (NumberValue (Num 1))
   \<and> lookup (empty_info\<lparr>call_confirmed_time := Present (Num 2)\<rparr>) K_call_confirmed_time
       = Present (NumberValue (Num 2))
   \<and> lookup (signallingInfo
        (updateSignallingInfo (empty_info\<lparr>call_confirmed_time := Present (Num 2)\<rparr>)
          (new_CallSession example_options))) K_call_initiation_time = Present (NumberValue (Num 1000))
   \<and> lookup (signallingInfo
        (updateSignallingInfo (empty_info\<lparr>call_confirmed_time := Present (Num 2)\<rparr>)
          (updateSignallingInfo (empty_info\<lparr>answer_time := Present (Num 1)\<rparr>)
            (new_CallSession example_options)))) K_answer_time = Present (NumberValue (Num 1))
   \<and> lookup (signallingInfo
        (updateSignallingInfo (empty_info\<lparr>call_confirmed_time := Present (Num 2)\<rparr>)
          (updateSignallingInfo (empty_info\<lparr>answer_time := Present (Num 1)\<rparr>)
            (new_CallSession example_options)))) K_call_confirmed_time = Present (NumberValue (Num 2))"
  using updateSignallingInfo_shallow_merge
      [of "empty_info\<lparr>call_confirmed_time := Present (Num 2)\<rparr>" K_call_initiation_time
        "new_CallSession example_options"
        "empty_info\<lparr>answer_time := Present (Num 1)\<rparr>" K_answer_time "NumberValue (Num 1)"
        "empty_info\<lparr>call_confirmed_time := Present (Num 2)\<rparr>" K_call_confirmed_time
        "NumberValue (Num 2)"]
    updateSignallingInfo_shallow_merge
      [of "empty_info\<lparr>call_confirmed_time := Present (Num 2)\<rparr>" K_call_confirmed_time
        "new_CallSession example_options"]
  by (simp add: empty_info_def new_CallSession_def example_options_def)

section \<open>Write-once and overwriting setters\<close>





text \<open>
  Claim C6, as stated, fails: \<open>setCallUUID\<close> has no guard, and a second call with another
  identifier replaces the first.
\<close>

theorem setCallUUID_reassigns:
  "Some ''uuid-A'' \<noteq> Some ''uuid-B'' \<and>
   callUUID (setCallUUID (Some ''uuid-A'') (new_CallSession example_options)) = Some ''uuid-A'' \<and>
   callUUID (setCallUUID (Some ''uuid-B'')
     (setCallUUID (Some ''uuid-A'') (new_CallSession example_options))) = Some ''uuid-B''"
  by (simp add: setCallUUID_def)

lemma callUUID_call_out [simp]: "callUUID (self (call_out e w)) = callUUID (self w)"
  by (simp add: call_out_def)

lemma callUUID_setTimeout [simp]: "callUUID (self (setTimeout cb d w)) = callUUID (self w)"
  by (simp add: setTimeout_def)

lemma callUUID_exec_other:
  "(\<forall>u. x \<noteq> SetCallUUID u) \<Longrightarrow> callUUID (self (exec C x w)) = callUUID (self w)"
proof (cases x)
  case (OnConfirmed cs t1 t2)
  then show ?thesis
    by (simp add: onConfirmed_def onConfirmed_finish_def on_self_def Let_def
        addConnectionStage_def setState_def updateSignallingInfo_def
        split: option.splits)
next
  case (OnEnded cs ev t1 t2)
  then show ?thesis
    by (simp add: onEnded_def on_self_def Let_def
        addConnectionStage_def setState_def updateSignallingInfo_def
        split: option.splits)
next
  case (TimerFires i)
  then show ?thesis
    by (cases "fst (timers w ! i)") (simp_all add: timer_fires_def split: option.splits)
qed (simp_all add: on_self_def setState_def addConnectionStage_def setCallStats_def
      clearCallStats_def updateSignallingInfo_def updateMediaConnectionInfo_def
      setPostDialDelayEndTime_def onAccepted_def Let_def onIceCandidate_def onIceTimeout_def
      onFailed_def onGetUserMediaFailed_def handlePeerConnectionFailures_def
      deviceInfo_settles_def split: option.splits nat.splits settled.splits)

text \<open>
  Claim C6, amended: \<open>setCallUUID u\<close> stores \<open>u\<close> whatever was stored before, and the
  code of no other operation of the class changes \<open>callUUID\<close>.
\<close>

theorem setCallUUID_overwrites:
  "callUUID (self (exec C (SetCallUUID u) w)) = u
   \<and> ((\<forall>u'. x \<noteq> SetCallUUID u') \<longrightarrow> callUUID (self (exec C x w)) = callUUID (self w))"
  using callUUID_exec_other [of x C w] by (simp add: on_self_def setCallUUID_def)

theorem setCallUUID_overwrites_witness:
  "(\<forall>u'. OnConfirmed example_client (Num 5000) (Num 5001) \<noteq> SetCallUUID u')
   \<and> callUUID (self (exec example_constants (OnConfirmed example_client (Num 5000) (Num 5001))
        (exec example_constants (SetCallUUID (Some ''uuid-A'')) (new_world example_options))))
       = Some ''uuid-A''"
  using setCallUUID_overwrites [of example_constants "Some ''uuid-A''" "new_world example_options"
      "OnConfirmed example_client (Num 5000) (Num 5001)"]
    setCallUUID_overwrites [of example_constants None
      "exec example_constants (SetCallUUID (Some ''uuid-A'')) (new_world example_options)"
      "OnConfirmed example_client (Num 5000) (Num 5001)"]
  by simp

section \<open>Releasing the statistics handle\<close>

text \<open>
  Claim C7: \<open>clearCallStats\<close> is idempotent. Calling it twice in a row leaves the same world
  (session, calls made, timers) as calling it once, and when the handle is already released
  it changes nothing.
\<close>

theorem clearCallStats_idempotent:
  "clearCallStats (clearCallStats w) = clearCallStats w
   \<and> (stats (self w') = None \<longrightarrow> clearCallStats w' = w')"
  by (simp add: clearCallStats_def on_self_def call_out_def split: option.splits)

theorem clearCallStats_idempotent_witness:
  "stats (self (clearCallStats (on_self (setCallStats \<lparr>statsTimer = 7, audioTimer = 8\<rparr>)
       (new_world example_options)))) = None
   \<and> trace (clearCallStats (clearCallStats (on_self (setCallStats \<lparr>statsTimer = 7, audioTimer = 8\<rparr>)
       (new_world example_options)))) = [ClearInterval 7, ClearInterval 8, StatsStop]
   \<and> clearCallStats (clearCallStats (on_self (setCallStats \<lparr>statsTimer = 7, audioTimer = 8\<rparr>)
       (new_world example_options)))
      = clearCallStats (on_self (setCallStats \<lparr>statsTimer = 7, audioTimer = 8\<rparr>)
       (new_world example_options))"
  using clearCallStats_idempotent
      [of "on_self (setCallStats \<lparr>statsTimer = 7, audioTimer = 8\<rparr>) (new_world example_options)"
        "clearCallStats (on_self (setCallStats \<lparr>statsTimer = 7, audioTimer = 8\<rparr>)
           (new_world example_options))"]
  by (simp add: clearCallStats_def on_self_def call_out_def setCallStats_def new_world_def)

section \<open>The answered event\<close>

text \<open>
  Claim C9: after \<open>onAccepted\<close> the answered event is sent whichever way the device
  query settles: with the device information when the query fulfils, with \<^verbatim>\<open>null\<close> in
  its place when it rejects. In both cases it is the one call added to those \<open>onAccepted\<close>
  made itself, and the query is pending from \<open>onAccepted\<close> until it settles.
\<close>

theorem onAccepted_answered_event_either_way:
  "trace (deviceInfo_settles (Fulfilled deviceInfo) (onAccepted clientObject now w)) =
     trace w @ [AddCloseProtectionListeners, GetAudioDevicesInfo, CallStart,
                StartVolumeDataStreaming, SendCallAnsweredEvent (Some deviceInfo) True]
   \<and> trace (deviceInfo_settles Rejected (onAccepted clientObject now w)) =
     trace w @ [AddCloseProtectionListeners, GetAudioDevicesInfo, CallStart,
                StartVolumeDataStreaming, SendCallAnsweredEvent None True]
   \<and> pendingDeviceInfo (onAccepted clientObject now w) = Suc (pendingDeviceInfo w)
   \<and> pendingDeviceInfo (deviceInfo_settles result (onAccepted clientObject now w))
       = pendingDeviceInfo w"
  by (cases result)
    (simp_all add: deviceInfo_settles_def onAccepted_def call_out_def on_self_def Let_def)

section \<open>The promise of \<open>fetchIPAddress\<close>\<close>

lemma resolve_settled: "p \<noteq> Pending \<Longrightarrow> resolve v p = p"
  by (cases p) (simp_all add: resolve_def)

lemma message_emits_settled: "p \<noteq> Pending \<Longrightarrow> message_emits e p = p"
  by (cases e) (simp_all add: resolve_settled split: option.splits)

lemma settle_with_settled: "p \<noteq> Pending \<Longrightarrow> settle_with es p = p"
  by (induction es arbitrary: p) (simp_all add: message_emits_settled)

lemma message_emits_Pending:
  "message_emits e Pending =
     FulfilledWith
       (case e of
          Failed \<Rightarrow> IpError no_ip
        | Succeeded d \<Rightarrow>
            (case response d of
               None \<Rightarrow> IpError no_ip
             | Some r \<Rightarrow>
                 (case body r of
                    None \<Rightarrow> IpError no_ip
                  | Some b \<Rightarrow> if b \<noteq> [] then IpString b else IpError no_ip)))"
  by (cases e) (simp_all add: resolve_def split: option.splits)

text \<open>
  Claim C10: the promise of \<open>fetchIPAddress\<close> is never rejected. The first event of the
  message settles it: \<^verbatim>\<open>succeeded\<close> with a response whose body is a non-empty string
  fulfils it with that string; \<^verbatim>\<open>succeeded\<close> without a response or without such a body, and
  \<^verbatim>\<open>failed\<close>, fulfil it with the error value. Before any event it is pending.
\<close>

theorem fetchIPAddress_never_rejects:
  "fetchIPAddress events \<noteq> RejectedWith err
   \<and> fetchIPAddress (e # es) =
       FulfilledWith
         (case e of
            Failed \<Rightarrow> IpError no_ip
          | Succeeded d \<Rightarrow>
              (case response d of
                 None \<Rightarrow> IpError no_ip
               | Some r \<Rightarrow>
                   (case body r of
                      None \<Rightarrow> IpError no_ip
                    | Some b \<Rightarrow> if b \<noteq> [] then IpString b else IpError no_ip)))
   \<and> fetchIPAddress [] = Pending"
proof -
  have first: "fetchIPAddress (e' # es') = message_emits e' Pending" for e' es'
    by (simp add: fetchIPAddress_def message_emits_Pending settle_with_settled)
  have "fetchIPAddress events \<noteq> RejectedWith err"
    by (cases events) (simp_all add: first message_emits_Pending, simp add: fetchIPAddress_def)
  then show ?thesis
    by (simp add: first message_emits_Pending) (simp add: fetchIPAddress_def)
qed

section \<open>The state of the call\<close>

lemma state_call_out [simp]: "state (self (call_out e w)) = state (self w)"
  by (simp add: call_out_def)

lemma state_setTimeout [simp]: "state (self (setTimeout cb d w)) = state (self w)"
  by (simp add: setTimeout_def)

lemma state_onConfirmed: "state (self (final (onConfirmed C cs t1 t2 w))) = STATE_ANSWERED"
  by (simp add: onConfirmed_def onConfirmed_finish_def on_self_def Let_def
      addConnectionStage_def setState_def updateSignallingInfo_def split: option.splits)

lemma state_onEnded: "state (self (final (onEnded cs ev t1 t2 w))) = STATE_ENDED"
  by (simp add: onEnded_def on_self_def Let_def
      addConnectionStage_def setState_def updateSignallingInfo_def split: option.splits)

lemma state_exec_other:
  "\<not> assigns_state x \<Longrightarrow> state (self (exec C x w)) = state (self w)"
proof (cases x)
  case (TimerFires i)
  then show ?thesis
    by (cases "fst (timers w ! i)") (simp_all add: timer_fires_def split: option.splits)
qed (simp_all add: on_self_def setCallUUID_def addConnectionStage_def setCallStats_def
      clearCallStats_def updateSignallingInfo_def updateMediaConnectionInfo_def
      setPostDialDelayEndTime_def onAccepted_def Let_def onIceCandidate_def onIceTimeout_def
      onFailed_def onGetUserMediaFailed_def handlePeerConnectionFailures_def
      deviceInfo_settles_def split: option.splits nat.splits settled.splits)

text \<open>
  Claim C3, as stated, fails: a session that has ended leaves the terminal state when a
  confirmation arrives afterwards, since \<open>_onConfirmed\<close> assigns \<^verbatim>\<open>answered\<close> without
  looking at the state.
\<close>

theorem onConfirmed_leaves_terminal_state:
  "terminal (state (self (exec example_constants
       (OnEnded example_client \<lparr>originator = ''remote'', cause = ''Terminated''\<rparr> (Num 9000) (Num 9001))
       (new_world example_options))))
   \<and> state (self (exec_all example_constants
       [OnEnded example_client \<lparr>originator = ''remote'', cause = ''Terminated''\<rparr> (Num 9000) (Num 9001),
        OnConfirmed example_client (Num 9500) (Num 9501)]
       (new_world example_options))) = ''answered''
   \<and> \<not> terminal ''answered''"
  by (simp add: state_onConfirmed state_onEnded terminal_def STATE_ANSWERED_def STATE_ENDED_def
      STATE_REJECTED_def STATE_IGNORED_def STATE_CANCELED_def STATE_FAILED_def)

text \<open>
  Claim C3, amended: the class does not guard terminal states. \<open>setState\<close> stores its
  argument, \<open>onConfirmed\<close> leaves the state \<^verbatim>\<open>answered\<close> and \<open>onEnded\<close> leaves it
  \<^verbatim>\<open>ended\<close>, each whatever the state was; the code of every other operation leaves the
  state as it found it.
\<close>

theorem state_assigned_unconditionally:
  "state (self (exec C (SetState st) w)) = st
   \<and> state (self (exec C (OnConfirmed cs t1 t2) w)) = STATE_ANSWERED
   \<and> state (self (exec C (OnEnded cs event t3 t4) w)) = STATE_ENDED
   \<and> (\<not> assigns_state x \<longrightarrow> state (self (exec C x w)) = state (self w))"
  using state_exec_other [of x C w]
  by (simp add: state_onConfirmed state_onEnded on_self_def setState_def)

theorem state_assigned_unconditionally_witness:
  "\<not> assigns_state (OnFailed example_client \<lparr>originator = ''remote'', cause = ''Busy''\<rparr> (Num 9000) (Num 9001))
   \<and> state (self (exec example_constants
        (OnFailed example_client \<lparr>originator = ''remote'', cause = ''Busy''\<rparr> (Num 9000) (Num 9001))
        (exec example_constants (SetState STATE_REJECTED) (new_world example_options)))) = ''rejected''"
  using state_assigned_unconditionally [where C = example_constants and st = STATE_REJECTED and w = "new_world example_options"]
    state_assigned_unconditionally [where C = example_constants
      and w = "exec example_constants (SetState STATE_REJECTED) (new_world example_options)"
      and x = "OnFailed example_client \<lparr>originator = ''remote'', cause = ''Busy''\<rparr> (Num 9000) (Num 9001)"]
  by (simp add: STATE_REJECTED_def)

section \<open>Candidates and the gathering watchdog\<close>

lemma srflx_is: "is_srflx srflx_candidate"
  by (simp add: is_srflx_def srflx_candidate_def search_def)

lemma relay_not: "\<not> is_srflx relay_candidate"
  by (simp add: is_srflx_def relay_candidate_def search_def)

lemma host_not: "\<not> is_srflx host_candidate"
  by (simp add: is_srflx_def host_candidate_def search_def)

text \<open>
  Claim C2, as stated, fails for a relayed candidate: its text has no \<^verbatim>\<open>srflx\<close>, so
  \<open>onIceCandidate\<close> does not signal ready and, on a fresh session, arms the watchdog.
\<close>

theorem onIceCandidate_relay_arms_watchdog:
  "\<not> is_srflx relay_candidate
   \<and> trace (onIceCandidate example_constants example_client relay_candidate
        (new_world example_options))
      = [SetTimeout (IceGatheringWatchdog example_client relay_candidate) 2000]
   \<and> ready_signals (trace (onIceCandidate example_constants example_client relay_candidate
        (new_world example_options))) = 0
   \<and> watchdogs_scheduled (trace (onIceCandidate example_constants example_client relay_candidate
        (new_world example_options))) = 1
   \<and> gotInitalIce (self (onIceCandidate example_constants example_client relay_candidate
        (new_world example_options)))"
  using relay_not
  by (simp add: onIceCandidate_def new_world_def new_CallSession_def setTimeout_def on_self_def
      example_constants_def ready_signals_def watchdogs_scheduled_def)

text \<open>
  Claim C2, amended: when the text of the candidate contains \<^verbatim>\<open>srflx\<close>,
  \<open>onIceCandidate\<close> signals ready on that event and returns, leaving the session and the
  timers as they were, so on a fresh session no watchdog is scheduled by that call. A
  candidate without \<^verbatim>\<open>srflx\<close> (relayed ones among them) gets no ready signal from
  \<open>onIceCandidate\<close>: while the flag \<open>gotInitalIce\<close> is down it raises the flag and
  schedules the watchdog, and nothing else; once the flag is up it changes nothing. So a
  candidate without \<^verbatim>\<open>srflx\<close> arms the watchdog even after a first candidate with it.
\<close>

theorem onIceCandidate_srflx_ready:
  "(is_srflx event \<longrightarrow>
      trace (onIceCandidate C cs event w) = trace w @ [EventReady event]
      \<and> timers (onIceCandidate C cs event w) = timers w
      \<and> self (onIceCandidate C cs event w) = self w
      \<and> pendingDeviceInfo (onIceCandidate C cs event w) = pendingDeviceInfo w
      \<and> watchdogs_scheduled (trace (onIceCandidate C cs event (new_world options))) = 0)
   \<and> (\<not> is_srflx event' \<and> \<not> gotInitalIce (self w') \<longrightarrow>
      trace (onIceCandidate C cs event' w')
        = trace w' @ [SetTimeout (IceGatheringWatchdog cs event') (ICE_GATHERING_TIMEOUT C)]
      \<and> timers (onIceCandidate C cs event' w')
        = timers w' @ [(IceGatheringWatchdog cs event', ICE_GATHERING_TIMEOUT C)]
      \<and> self (onIceCandidate C cs event' w') = (self w')\<lparr>gotInitalIce := True\<rparr>
      \<and> pendingDeviceInfo (onIceCandidate C cs event' w') = pendingDeviceInfo w')
   \<and> (\<not> is_srflx event' \<and> gotInitalIce (self w'') \<longrightarrow> onIceCandidate C cs event' w'' = w'')
   \<and> (is_srflx event \<and> \<not> is_srflx event' \<longrightarrow>
      watchdogs_scheduled
        (trace (exec_all C [OnIceCandidate cs event, OnIceCandidate cs' event'] (new_world options))) = 1)"
  by (simp add: onIceCandidate_def call_out_def new_world_def new_CallSession_def setTimeout_def
      on_self_def watchdogs_scheduled_def)

theorem onIceCandidate_srflx_ready_witness:
  "is_srflx srflx_candidate \<and> \<not> is_srflx host_candidate
   \<and> \<not> gotInitalIce (self (new_world example_options))
   \<and> gotInitalIce (self (onIceCandidate example_constants example_client host_candidate
          (new_world example_options)))
   \<and> trace (onIceCandidate example_constants example_client srflx_candidate (new_world example_options))
       = [EventReady srflx_candidate]
   \<and> timers (onIceCandidate example_constants example_client srflx_candidate (new_world example_options)) = []
   \<and> trace (onIceCandidate example_constants example_client host_candidate (new_world example_options))
       = [SetTimeout (IceGatheringWatchdog example_client host_candidate) 2000]
   \<and> timers (onIceCandidate example_constants example_client host_candidate (new_world example_options))
       = [(IceGatheringWatchdog example_client host_candidate, 2000)]
   \<and> onIceCandidate example_constants example_client host_candidate
        (onIceCandidate example_constants example_client host_candidate (new_world example_options))
       = onIceCandidate example_constants example_client host_candidate (new_world example_options)
   \<and> watchdogs_scheduled
        (trace (exec_all example_constants
           [OnIceCandidate example_client srflx_candidate, OnIceCandidate example_client host_candidate]
           (new_world example_options))) = 1"
proof -
  have fresh: "\<not> gotInitalIce (self (new_world example_options))"
    by (simp add: new_world_def new_CallSession_def)
  note t = onIceCandidate_srflx_ready [where event = srflx_candidate and event' = host_candidate
      and C = example_constants and cs = example_client and cs' = example_client
      and w = "new_world example_options" and w' = "new_world example_options"
      and w'' = "onIceCandidate example_constants example_client host_candidate
          (new_world example_options)"
      and options = example_options]
  have armed: "gotInitalIce (self (onIceCandidate example_constants example_client host_candidate
          (new_world example_options)))"
    using t host_not fresh by simp
  show ?thesis
    using t srflx_is host_not fresh armed
    by (simp add: new_world_def example_constants_def)
qed

lemma trace_call_out [simp]: "trace (call_out e w) = trace w @ [e]"
  by (simp add: call_out_def)

lemma timers_call_out [simp]: "timers (call_out e w) = timers w"
  by (simp add: call_out_def)

lemma self_call_out [simp]: "self (call_out e w) = self w"
  by (simp add: call_out_def)

lemma watchdogs_scheduled_simps [simp]:
  "watchdogs_scheduled [] = 0"
  "watchdogs_scheduled (e # tr) = (if schedules_watchdog e then 1 else 0) + watchdogs_scheduled tr"
  "watchdogs_scheduled (tr @ tr') = watchdogs_scheduled tr + watchdogs_scheduled tr'"
  by (simp_all add: watchdogs_scheduled_def)

lemma ice_timeout_metrics_simps [simp]:
  "ice_timeout_metrics [] = 0"
  "ice_timeout_metrics (e # tr) = (if is_ice_timeout_metric e then 1 else 0) + ice_timeout_metrics tr"
  "ice_timeout_metrics (tr @ tr') = ice_timeout_metrics tr + ice_timeout_metrics tr'"
  by (simp_all add: ice_timeout_metrics_def)

lemma ready_signals_simps [simp]:
  "ready_signals [] = 0"
  "ready_signals (e # tr) = (if is_ready e then 1 else 0) + ready_signals tr"
  "ready_signals (tr @ tr') = ready_signals tr + ready_signals tr'"
  by (simp_all add: ready_signals_def)

lemma watchdogs_pending_simps [simp]:
  "watchdogs_pending [] = 0"
  "watchdogs_pending (t # ts) = (if is_watchdog (fst t) then 1 else 0) + watchdogs_pending ts"
  "watchdogs_pending (ts @ ts') = watchdogs_pending ts + watchdogs_pending ts'"
  by (simp_all add: watchdogs_pending_def)

lemma watchdogs_pending_remove:
  assumes "i < length ts"
  shows "watchdogs_pending (take i ts @ drop (Suc i) ts) + (if is_watchdog (fst (ts ! i)) then 1 else 0)
           = watchdogs_pending ts"
proof -
  have "ts = take i ts @ ts ! i # drop (Suc i) ts"
    using assms by (rule id_take_nth_drop)
  then have "watchdogs_pending ts = watchdogs_pending (take i ts @ ts ! i # drop (Suc i) ts)"
    by simp
  then show ?thesis
    by (simp del: append_take_drop_id)
qed

text \<open>What a firing watchdog adds to the trace, and that it touches nothing else.\<close>

lemma run_closure_counts:
  "watchdogs_scheduled (trace (run_closure C cb w)) = watchdogs_scheduled (trace w)
   \<and> ice_timeout_metrics (trace (run_closure C cb w))
        \<le> ice_timeout_metrics (trace w) + (if is_watchdog cb then 1 else 0)
   \<and> timers (run_closure C cb w) = timers w
   \<and> self (run_closure C cb w) = self w"
  by (cases cb) (simp_all split: option.splits)

lemma armed_once_onIceCandidate: "armed_once w \<Longrightarrow> armed_once (onIceCandidate C cs event w)"
  by (auto simp add: armed_once_def onIceCandidate_def setTimeout_def on_self_def)

lemma fires_once_onIceCandidate: "fires_once w \<Longrightarrow> fires_once (onIceCandidate C cs event w)"
  by (auto simp add: fires_once_def onIceCandidate_def setTimeout_def on_self_def)

lemma armed_once_timer_fires: "armed_once w \<Longrightarrow> armed_once (timer_fires C i w)"
  by (simp add: armed_once_def timer_fires_def run_closure_counts)

lemma fires_once_timer_fires:
  assumes "fires_once w"
  shows "fires_once (timer_fires C i w)"
proof (cases "i < length (timers w)")
  case False
  then show ?thesis using assms by (simp add: timer_fires_def)
next
  case True
  let ?w = "w\<lparr>timers := take i (timers w) @ drop (Suc i) (timers w)\<rparr>"
  let ?cb = "fst (timers w ! i)"
  have fired: "timer_fires C i w = run_closure C ?cb ?w"
    using True by (simp add: timer_fires_def)
  have pend: "watchdogs_pending (timers ?w) + (if is_watchdog ?cb then 1 else 0)
                = watchdogs_pending (timers w)"
    using watchdogs_pending_remove [OF True] by simp
  have cnt: "ice_timeout_metrics (trace (run_closure C ?cb ?w))
               \<le> ice_timeout_metrics (trace w) + (if is_watchdog ?cb then 1 else 0)"
    using run_closure_counts [of C ?cb ?w] by simp
  have same: "watchdogs_scheduled (trace (run_closure C ?cb ?w)) = watchdogs_scheduled (trace w)"
    "timers (run_closure C ?cb ?w) = timers ?w"
    using run_closure_counts [of C ?cb ?w] by simp_all
  from assms have "watchdogs_pending (timers w) + ice_timeout_metrics (trace w)
      \<le> watchdogs_scheduled (trace w)"
    by (simp add: fires_once_def)
  with pend cnt same show ?thesis
    unfolding fired fires_once_def by (simp split: if_splits)
qed

text \<open>No operation of the class lowers the flag or schedules a second watchdog.\<close>

lemma armed_once_exec: "armed_once w \<Longrightarrow> armed_once (exec C x w)"
proof (cases x)
  case (OnIceCandidate cs event)
  assume "armed_once w"
  then show ?thesis using OnIceCandidate by (simp add: armed_once_onIceCandidate)
next
  case (TimerFires i)
  assume "armed_once w"
  then show ?thesis using TimerFires by (simp add: armed_once_timer_fires)
next
  case (OnConfirmed cs t1 t2)
  assume "armed_once w"
  then show ?thesis using OnConfirmed
    by (simp add: armed_once_def onConfirmed_def onConfirmed_finish_def on_self_def Let_def
        setTimeout_def addConnectionStage_def setState_def updateSignallingInfo_def
        split: option.splits)
next
  case (OnEnded cs ev t1 t2)
  assume "armed_once w"
  then show ?thesis using OnEnded
    by (simp add: armed_once_def onEnded_def on_self_def Let_def
        addConnectionStage_def setState_def updateSignallingInfo_def split: option.splits)
qed (simp_all add: armed_once_def on_self_def setCallUUID_def setState_def addConnectionStage_def
      setCallStats_def clearCallStats_def updateSignallingInfo_def updateMediaConnectionInfo_def
      setPostDialDelayEndTime_def onAccepted_def Let_def onIceTimeout_def
      onFailed_def onGetUserMediaFailed_def handlePeerConnectionFailures_def
      deviceInfo_settles_def split: option.splits nat.splits settled.splits)

lemma armed_once_exec_all: "armed_once w \<Longrightarrow> armed_once (exec_all C ops w)"
  by (induction ops arbitrary: w) (simp_all add: armed_once_exec)

lemma fires_once_exec: "ice_step x \<Longrightarrow> fires_once w \<Longrightarrow> fires_once (exec C x w)"
  by (cases x) (simp_all add: fires_once_onIceCandidate fires_once_timer_fires)

lemma fires_once_exec_all:
  "list_all ice_step ops \<Longrightarrow> fires_once w \<Longrightarrow> fires_once (exec_all C ops w)"
  by (induction ops arbitrary: w) (simp_all add: fires_once_exec)

lemma new_world_invariants: "armed_once (new_world options) \<and> fires_once (new_world options)"
  by (simp add: armed_once_def fires_once_def new_world_def watchdogs_scheduled_def
      watchdogs_pending_def ice_timeout_metrics_def)

lemma exec_all_append: "exec_all C (xs @ ys) w = exec_all C ys (exec_all C xs w)"
  by (induction xs arbitrary: w) simp_all

text \<open>After the watchdog is armed, a candidate is a ready signal or nothing.\<close>

lemma later_candidates_ready_only:
  "gotInitalIce (self w) \<Longrightarrow>
   exec_all C (map (\<lambda>p. OnIceCandidate (fst p) (snd p)) rest) w
     = w\<lparr>trace := trace w @ map EventReady (filter is_srflx (map snd rest))\<rparr>"
proof (induction rest arbitrary: w)
  case Nil
  then show ?case by simp
next
  case (Cons p rest)
  show ?case
  proof (cases "is_srflx (snd p)")
    case True
    have "gotInitalIce (self (call_out (EventReady (snd p)) w))"
      using Cons.prems by simp
    from Cons.IH [OF this] True show ?thesis
      by (simp add: onIceCandidate_def call_out_def)
  next
    case False
    with Cons.IH [OF Cons.prems] Cons.prems show ?thesis
      by (simp add: onIceCandidate_def)
  qed
qed

lemma counts_of_ready [simp]:
  "ready_signals (map EventReady es) = length es"
  "ice_timeout_metrics (map EventReady es) = 0"
  "watchdogs_scheduled (map EventReady es) = 0"
  by (induction es) simp_all

lemma watchdog_scenario_general:
  assumes "\<not> is_srflx event"
    and "opt_session options = Some rs" and "connection rs = Some pc"
    and "iceGatheringState pc \<noteq> ''complete''"
  shows "exec_all C (OnIceCandidate cs event # map (\<lambda>p. OnIceCandidate (fst p) (snd p)) rest
             @ [TimerFires 0]) (new_world options)
         = (new_world options)
             \<lparr>self := (new_CallSession options)\<lparr>gotInitalIce := True\<rparr>,
              trace := SetTimeout (IceGatheringWatchdog cs event) (ICE_GATHERING_TIMEOUT C)
                        # map EventReady (filter is_srflx (map snd rest))
                        @ [EventReady event,
                           LogDebug (IceGatheringTakingMoreThan (ICE_GATHERING_TIMEOUT C)
                                       (iceGatheringState pc)),
                           EmitMetrics ''network'' ''warning'' ''ice_timeout''
                             (Num (ICE_GATHERING_TIMEOUT C)) True
                             ''Possible NAT/Firewall issue'' ''None'']\<rparr>"
proof -
  let ?w1 = "onIceCandidate C cs event (new_world options)"
  have got: "gotInitalIce (self ?w1)"
    using assms(1)
    by (simp add: onIceCandidate_def setTimeout_def on_self_def new_world_def new_CallSession_def)
  have "exec_all C (OnIceCandidate cs event # map (\<lambda>p. OnIceCandidate (fst p) (snd p)) rest
             @ [TimerFires 0]) (new_world options)
        = timer_fires C 0 (exec_all C (map (\<lambda>p. OnIceCandidate (fst p) (snd p)) rest) ?w1)"
    by (simp add: exec_all_append)
  also have "\<dots> = timer_fires C 0
      (?w1\<lparr>trace := trace ?w1 @ map EventReady (filter is_srflx (map snd rest))\<rparr>)"
    using later_candidates_ready_only [OF got] by simp
  also have "\<dots> = (new_world options)
             \<lparr>self := (new_CallSession options)\<lparr>gotInitalIce := True\<rparr>,
              trace := SetTimeout (IceGatheringWatchdog cs event) (ICE_GATHERING_TIMEOUT C)
                        # map EventReady (filter is_srflx (map snd rest))
                        @ [EventReady event,
                           LogDebug (IceGatheringTakingMoreThan (ICE_GATHERING_TIMEOUT C)
                                       (iceGatheringState pc)),
                           EmitMetrics ''network'' ''warning'' ''ice_timeout''
                             (Num (ICE_GATHERING_TIMEOUT C)) True
                             ''Possible NAT/Firewall issue'' ''None'']\<rparr>"
    using assms
    by (simp add: timer_fires_def onIceCandidate_def setTimeout_def on_self_def new_world_def
        new_CallSession_def call_out_def)
  finally show ?thesis .
qed

text \<open>
  Claim C4, as stated, fails for the number of ready signals: a host candidate arms the
  watchdog, a server-reflexive candidate that follows is signalled ready at once, and the
  watchdog, firing while gathering is incomplete, signals ready again. Two ready signals
  are produced, and one \<^verbatim>\<open>ice_timeout\<close> metric.
\<close>

theorem srflx_after_host_gives_second_ready:
  "\<not> is_srflx host_candidate
   \<and> opt_session example_options
       = Some \<lparr>connection = Some \<lparr>iceGatheringState = ''gathering'', disableRtpTimeOut = False\<rparr>\<rparr>
   \<and> ''gathering'' \<noteq> ''complete''
   \<and> trace (exec_all example_constants
        [OnIceCandidate example_client host_candidate, OnIceCandidate example_client srflx_candidate,
         TimerFires 0] (new_world example_options))
      = [SetTimeout (IceGatheringWatchdog example_client host_candidate) 2000,
         EventReady srflx_candidate,
         EventReady host_candidate,
         LogDebug (IceGatheringTakingMoreThan 2000 ''gathering''),
         EmitMetrics ''network'' ''warning'' ''ice_timeout'' (Num 2000) True
           ''Possible NAT/Firewall issue'' ''None'']
   \<and> ready_signals (trace (exec_all example_constants
        [OnIceCandidate example_client host_candidate, OnIceCandidate example_client srflx_candidate,
         TimerFires 0] (new_world example_options))) = 2"
proof -
  have sess: "opt_session example_options
       = Some \<lparr>connection = Some \<lparr>iceGatheringState = ''gathering'', disableRtpTimeOut = False\<rparr>\<rparr>"
    by (simp add: example_options_def)
  have inc: "iceGatheringState \<lparr>iceGatheringState = ''gathering'', disableRtpTimeOut = False\<rparr>
      \<noteq> ''complete''"
    by simp
  have conn: "connection \<lparr>connection = Some \<lparr>iceGatheringState = ''gathering'', disableRtpTimeOut = False\<rparr>\<rparr>
      = Some \<lparr>iceGatheringState = ''gathering'', disableRtpTimeOut = False\<rparr>"
    by simp
  have run: "exec_all example_constants
        [OnIceCandidate example_client host_candidate, OnIceCandidate example_client srflx_candidate,
         TimerFires 0] (new_world example_options)
      = exec_all example_constants
          (OnIceCandidate example_client host_candidate
            # map (\<lambda>p. OnIceCandidate (fst p) (snd p)) [(example_client, srflx_candidate)]
            @ [TimerFires 0]) (new_world example_options)"
    by simp
  show ?thesis
    unfolding run watchdog_scenario_general [OF host_not sess conn inc]
    using host_not srflx_is sess
    by (simp add: example_constants_def)
qed

text \<open>
  Claim C4, amended: on a session as the constructor leaves it, no sequence of operations
  schedules the gathering watchdog more than once, and no sequence of candidates and timer
  firings emits more than one \<^verbatim>\<open>ice_timeout\<close> metric. When the first candidate
  does not take the \<^verbatim>\<open>srflx\<close> path and the peer connection is there and has not
  completed gathering when the timer fires, then exactly one \<^verbatim>\<open>ice_timeout\<close> metric
  has been produced, no timer is left to produce another, and the ready signals are the one
  of the watchdog and one for each candidate with \<^verbatim>\<open>srflx\<close> that arrived before the
  timer fired: exactly one when no such candidate arrived.
\<close>

theorem ice_watchdog_single_shot:
  "watchdogs_scheduled (trace (exec_all C ops (new_world options))) \<le> 1
   \<and> (list_all ice_step steps \<longrightarrow>
        ice_timeout_metrics (trace (exec_all C steps (new_world options))) \<le> 1)
   \<and> (\<not> is_srflx event
       \<and> opt_session options = Some rs \<and> connection rs = Some pc
       \<and> iceGatheringState pc \<noteq> ''complete'' \<longrightarrow>
        (let w = exec_all C (OnIceCandidate cs event
                     # map (\<lambda>p. OnIceCandidate (fst p) (snd p)) rest @ [TimerFires 0])
                   (new_world options)
         in ice_timeout_metrics (trace w) = 1
            \<and> ready_signals (trace w) = 1 + length (filter is_srflx (map snd rest))
            \<and> (filter is_srflx (map snd rest) = [] \<longrightarrow> ready_signals (trace w) = 1)
            \<and> watchdogs_scheduled (trace w) = 1 \<and> timers w = []))"
proof (intro conjI impI)
  have a: "watchdogs_scheduled (trace (exec_all C ops' (new_world options))) \<le> 1" for ops'
    using armed_once_exec_all [of "new_world options" C ops'] new_world_invariants [of options]
    by (simp add: armed_once_def)
  show "watchdogs_scheduled (trace (exec_all C ops (new_world options))) \<le> 1"
    by (rule a)
  show "ice_timeout_metrics (trace (exec_all C steps (new_world options))) \<le> 1"
    if "list_all ice_step steps"
  proof -
    have "fires_once (exec_all C steps (new_world options))"
      using fires_once_exec_all [OF that] new_world_invariants by simp
    then have "ice_timeout_metrics (trace (exec_all C steps (new_world options)))
        \<le> watchdogs_scheduled (trace (exec_all C steps (new_world options)))"
      by (simp add: fires_once_def)
    with a [of steps] show ?thesis by simp
  qed
  show "let w = exec_all C (OnIceCandidate cs event
                     # map (\<lambda>p. OnIceCandidate (fst p) (snd p)) rest @ [TimerFires 0])
                   (new_world options)
         in ice_timeout_metrics (trace w) = 1
            \<and> ready_signals (trace w) = 1 + length (filter is_srflx (map snd rest))
            \<and> (filter is_srflx (map snd rest) = [] \<longrightarrow> ready_signals (trace w) = 1)
            \<and> watchdogs_scheduled (trace w) = 1 \<and> timers w = []"
    if h: "\<not> is_srflx event
       \<and> opt_session options = Some rs \<and> connection rs = Some pc
       \<and> iceGatheringState pc \<noteq> ''complete''"
  proof -
    from h have h1: "\<not> is_srflx event"
      and h3: "opt_session options = Some rs" and h4: "connection rs = Some pc"
      and h5: "iceGatheringState pc \<noteq> ''complete''"
      by blast+
    show ?thesis
      unfolding Let_def watchdog_scenario_general [OF h1 h3 h4 h5]
      by (simp add: new_world_def)
  qed
qed

theorem ice_watchdog_single_shot_witness:
  "list_all ice_step [OnIceCandidate example_client host_candidate, TimerFires 0, TimerFires 0,
       OnIceCandidate example_client relay_candidate]
   \<and> \<not> is_srflx host_candidate
   \<and> opt_session example_options
       = Some \<lparr>connection = Some \<lparr>iceGatheringState = ''gathering'', disableRtpTimeOut = False\<rparr>\<rparr>
   \<and> ''gathering'' \<noteq> ''complete''
   \<and> filter is_srflx (map snd [(example_client, relay_candidate)]) = []
   \<and> ice_timeout_metrics (trace (exec_all example_constants
        [OnIceCandidate example_client host_candidate, OnIceCandidate example_client relay_candidate,
         TimerFires 0] (new_world example_options))) = 1
   \<and> ready_signals (trace (exec_all example_constants
        [OnIceCandidate example_client host_candidate, OnIceCandidate example_client relay_candidate,
         TimerFires 0] (new_world example_options))) = 1
   \<and> ice_timeout_metrics (trace (exec_all example_constants
        [OnIceCandidate example_client host_candidate, TimerFires 0, TimerFires 0,
         OnIceCandidate example_client relay_candidate] (new_world example_options))) \<le> 1"
proof -
  note t = ice_watchdog_single_shot [where C = example_constants and options = example_options
      and steps = "[OnIceCandidate example_client host_candidate, TimerFires 0, TimerFires 0,
         OnIceCandidate example_client relay_candidate]"
      and event = host_candidate and cs = example_client
      and rest = "[(example_client, relay_candidate)]"
      and rs = "\<lparr>connection = Some \<lparr>iceGatheringState = ''gathering'', disableRtpTimeOut = False\<rparr>\<rparr>"
      and pc = "\<lparr>iceGatheringState = ''gathering'', disableRtpTimeOut = False\<rparr>"]
  have steps: "list_all ice_step [OnIceCandidate example_client host_candidate, TimerFires 0,
       TimerFires 0, OnIceCandidate example_client relay_candidate]"
    by simp
  have none: "filter is_srflx (map snd [(example_client, relay_candidate)]) = []"
    using relay_not by simp
  have sess: "opt_session example_options
       = Some \<lparr>connection = Some \<lparr>iceGatheringState = ''gathering'', disableRtpTimeOut = False\<rparr>\<rparr>"
    by (simp add: example_options_def)
  have b: "ice_timeout_metrics (trace (exec_all example_constants
        [OnIceCandidate example_client host_candidate, TimerFires 0, TimerFires 0,
         OnIceCandidate example_client relay_candidate] (new_world example_options))) \<le> 1"
    using t steps by blast
  have "let w = exec_all example_constants
            (OnIceCandidate example_client host_candidate
              # map (\<lambda>p. OnIceCandidate (fst p) (snd p)) [(example_client, relay_candidate)]
              @ [TimerFires 0]) (new_world example_options)
        in ice_timeout_metrics (trace w) = 1
           \<and> ready_signals (trace w)
               = 1 + length (filter is_srflx (map snd [(example_client, relay_candidate)]))
           \<and> (filter is_srflx (map snd [(example_client, relay_candidate)]) = []
                \<longrightarrow> ready_signals (trace w) = 1)
           \<and> watchdogs_scheduled (trace w) = 1 \<and> timers w = []"
    by (rule t [THEN conjunct2, THEN conjunct2, THEN mp]) (use host_not sess in simp)
  then have c: "ice_timeout_metrics (trace (exec_all example_constants
        [OnIceCandidate example_client host_candidate, OnIceCandidate example_client relay_candidate,
         TimerFires 0] (new_world example_options))) = 1
     \<and> ready_signals (trace (exec_all example_constants
        [OnIceCandidate example_client host_candidate, OnIceCandidate example_client relay_candidate,
         TimerFires 0] (new_world example_options))) = 1"
    using none by (simp add: Let_def)
  from steps host_not none sess b c show ?thesis
    by blast
qed

end
